theory Spec2Isabelle
  imports Complex_Main
begin

section \<open>The indexing notebook as a state-passing program\<close>

text \<open>
  The repository is one notebook, \<^verbatim>\<open>src/Indexing-tutorial.ipynb\<close>. Its code cells are
  embedded here one by one, in the order of the file, and composed in that order
  (the notebook run top to bottom, "Run All"): an exception that leaves a cell stops
  the run, so no later cell executes.

  Everything the cells call outside the notebook (the operating system, python-dotenv,
  the PDF loader, the text splitter, the Ollama embedding client, pymongo and the
  MongoDB vector store) is a field of the record \<open>world\<close>: the notebook holds no code of
  these libraries, so their answers are parameters of the model and nothing is assumed
  about them. Every such call is logged in a trace together with its outcome, and so
  is every \<^verbatim>\<open>print\<close> and every exception the notebook raises itself.

  Not modelled: the import cell; the value a cell displays after its last expression;
  the text \<^verbatim>\<open>print\<close> formats from its arguments (the arguments are logged as they are).
  \<^verbatim>\<open>os.getcwd\<close>, \<^verbatim>\<open>os.getenv\<close> and \<^verbatim>\<open>print\<close> are taken to return, and
  \<^verbatim>\<open>os.path.exists\<close> always returns (it answers \<^verbatim>\<open>False\<close> where \<^verbatim>\<open>stat\<close> fails); every
  other outside call may raise, pathlib's \<^verbatim>\<open>Path.exists\<close> among them. The file system answers the same question
  the same way during one run.
\<close>

subsection \<open>Data\<close>

text \<open>
  A \<^verbatim>\<open>pathlib.Path\<close> holding an absolute POSIX path is the list of its components
  below the root; the root is the empty list.
\<close>

type_synonym path = "string list"

text \<open>
  Python exceptions as values. \<open>AssertionError\<close> carries the message of the
  \<^verbatim>\<open>assert\<close> statement when it has one; \<open>PyException\<close> is a plain
  \<^verbatim>\<open>Exception(msg)\<close>; \<open>IndexError\<close> is a list index out of range;
  \<open>LibError\<close> is any exception raised inside a library or system call, named by its
  message. All of them are subclasses of \<^verbatim>\<open>Exception\<close>.
\<close>

datatype error =
    AssertionError "string option"
  | PyException string
  | IndexError
  | LibError string

datatype meta_value = MStr string | MInt int

text \<open>The LangChain \<^verbatim>\<open>Document\<close>: \<^verbatim>\<open>page_content\<close>, \<^verbatim>\<open>metadata\<close>, \<^verbatim>\<open>id\<close>.\<close>

record document =
  page_content :: string
  metadata :: "(string \<times> meta_value) list"
  doc_id :: "string option"

text \<open>The keyword arguments of \<^verbatim>\<open>RecursiveCharacterTextSplitter(...)\<close>.\<close>

record splitter_config =
  chunk_size :: int
  chunk_overlap :: int
  add_start_index :: bool

text \<open>What a \<^verbatim>\<open>print\<close> call is given, argument by argument.\<close>

datatype printed =
    OutStr string
  | OutNat nat
  | OutBool bool
  | OutVec "real list"
  | OutMeta "(string \<times> meta_value) list"
  | OutErr error

text \<open>
  The trace: one event per call that leaves the notebook, with \<open>None\<close> when the call
  returned and \<open>Some e\<close> when it raised \<open>e\<close>; \<open>Raised\<close> is an exception raised by the
  notebook's own code (\<^verbatim>\<open>raise\<close>, \<^verbatim>\<open>assert\<close>, an index out of range).
\<close>

datatype event =
    Getcwd path
  | Listdir path "error option"
  | PathExists path bool
  | PathlibExists path "error + bool"
  | LoadDotenv path "error option"
  | LoaderInit path "error option"
  | LoaderLoad path "error option"
  | SplitterInit splitter_config "error option"
  | SplitDocuments splitter_config "error option"
  | EmbeddingsInit string "error option"
  | EmbedQuery string string "error option"
  | Getenv string "string option"
  | MongoClientInit "string option" string "error option"
  | AdminCommand string "error option"
  | VectorStoreInit string string string string "error option"
  | Print "printed list"
  | Raised error

text \<open>
  Two fields answer for \<^verbatim>\<open>stat\<close>. \<open>ext_exists p\<close> is the answer of \<^verbatim>\<open>os.path.exists(p)\<close>:
  \<^verbatim>\<open>False\<close> for a path that is not there, and for any path \<^verbatim>\<open>stat\<close> cannot reach.
  \<open>ext_stat_error p\<close> is the \<^verbatim>\<open>OSError\<close> that \<^verbatim>\<open>stat\<close> raises for \<open>p\<close>, if it raises
  one other than \<^verbatim>\<open>ENOENT\<close>, \<^verbatim>\<open>ENOTDIR\<close>, \<^verbatim>\<open>EBADF\<close> and \<^verbatim>\<open>ELOOP\<close> (a
  \<^verbatim>\<open>PermissionError\<close> under a directory that may not be searched, a name too long).
\<close>

record world =
  ext_getcwd :: path
  ext_environ :: "string \<rightharpoonup> string"
  ext_listdir :: "path \<Rightarrow> error + string list"
  ext_exists :: "path \<Rightarrow> bool"
  ext_stat_error :: "path \<Rightarrow> error option"
  ext_load_dotenv :: "path \<Rightarrow> (string \<rightharpoonup> string) \<Rightarrow> error + (string \<rightharpoonup> string)"
  ext_loader_init :: "path \<Rightarrow> error option"
  ext_loader_load :: "path \<Rightarrow> error + document list"
  ext_splitter_init :: "splitter_config \<Rightarrow> error option"
  ext_split_documents :: "splitter_config \<Rightarrow> document list \<Rightarrow> error + document list"
  ext_embeddings_init :: "string \<Rightarrow> error option"
  ext_embed_query :: "string \<Rightarrow> string \<Rightarrow> error + real list"
  ext_mongo_client :: "string option \<Rightarrow> string \<Rightarrow> error option"
  ext_admin_command :: "string option \<Rightarrow> string \<Rightarrow> error option"
  ext_vector_store :: "string \<Rightarrow> string \<Rightarrow> string \<Rightarrow> string \<Rightarrow> error option"

text \<open>
  The state a run threads through the cells: the process environment
  (\<^verbatim>\<open>os.environ\<close>, which \<^verbatim>\<open>load_dotenv\<close> changes and \<^verbatim>\<open>os.getenv\<close> reads) and the trace.
\<close>

record nb_state =
  environ :: "string \<rightharpoonup> string"
  trace :: "event list"

type_synonym 'a nb = "nb_state \<Rightarrow> (error + 'a) \<times> nb_state"

subsection \<open>Sequencing, exceptions, logging\<close>

definition ret :: "'a \<Rightarrow> 'a nb" where
  "ret x = (\<lambda>s. (Inr x, s))"

definition emit :: "event \<Rightarrow> unit nb" where
  "emit ev = (\<lambda>s. (Inr (), s\<lparr>trace := trace s @ [ev]\<rparr>))"

definition raise :: "error \<Rightarrow> 'a nb" where
  "raise e = (\<lambda>s. (Inl e, s\<lparr>trace := trace s @ [Raised e]\<rparr>))"

text \<open>One statement after another: an exception of the first skips the second.\<close>

definition bind :: "'a nb \<Rightarrow> ('a \<Rightarrow> 'b nb) \<Rightarrow> 'b nb" where
  "bind m f = (\<lambda>s. case m s of (Inl e, s') \<Rightarrow> (Inl e, s') | (Inr x, s') \<Rightarrow> f x s')"

text \<open>
  \<^verbatim>\<open>try: body except Exception as e: handler\<close>. Every \<open>error\<close> of the model is an
  \<^verbatim>\<open>Exception\<close>, so the handler takes them all.
\<close>

definition try_except :: "'a nb \<Rightarrow> (error \<Rightarrow> 'a nb) \<Rightarrow> 'a nb" where
  "try_except body handler =
     (\<lambda>s. case body s of (Inl e, s') \<Rightarrow> handler e s' | (Inr x, s') \<Rightarrow> (Inr x, s'))"

text \<open>A library call that returns nothing of interest, or raises.\<close>

definition call_unit :: "(error option \<Rightarrow> event) \<Rightarrow> error option \<Rightarrow> unit nb" where
  "call_unit ev r =
     (\<lambda>s. (case r of None \<Rightarrow> Inr () | Some e \<Rightarrow> Inl e, s\<lparr>trace := trace s @ [ev r]\<rparr>))"

text \<open>A library call that returns a result, or raises.\<close>

definition call_val :: "(error option \<Rightarrow> event) \<Rightarrow> error + 'a \<Rightarrow> 'a nb" where
  "call_val ev r =
     (\<lambda>s. (r, s\<lparr>trace := trace s @ [ev (case r of Inl e \<Rightarrow> Some e | Inr x \<Rightarrow> None)]\<rparr>))"

definition py_print :: "printed list \<Rightarrow> unit nb" where
  "py_print args = emit (Print args)"

text \<open>\<^verbatim>\<open>assert cond\<close> and \<^verbatim>\<open>assert cond, msg\<close>.\<close>

definition py_assert :: "bool \<Rightarrow> string option \<Rightarrow> unit nb" where
  "py_assert cond msg = (if cond then ret () else raise (AssertionError msg))"

text \<open>\<^verbatim>\<open>xs[i]\<close> for a literal index \<open>i \<ge> 0\<close>: out of range raises.\<close>

definition getitem :: "'a list \<Rightarrow> nat \<Rightarrow> 'a nb" where
  "getitem xs i = (if i < length xs then ret (xs ! i) else raise IndexError)"

subsection \<open>pathlib\<close>

text \<open>\<^verbatim>\<open>Path.parent\<close>: the parent of the root is the root.\<close>

definition parent :: "path \<Rightarrow> path" where
  "parent p = butlast p"

text \<open>\<^verbatim>\<open>Path.parents\<close>: the ancestors, nearest first; the root has none.\<close>

definition parents :: "path \<Rightarrow> path list" where
  "parents p = map (\<lambda>i. take (length p - Suc i) p) [0..<length p]"

text \<open>\<^verbatim>\<open>p / name\<close> for a single component \<open>name\<close>.\<close>

definition truediv :: "path \<Rightarrow> string \<Rightarrow> path" where
  "truediv p name = p @ [name]"

text \<open>\<^verbatim>\<open>str(p)\<close>.\<close>

definition posix :: "path \<Rightarrow> string" where
  "posix p = (if p = [] then ''/'' else concat (map (\<lambda>c. CHR ''/'' # c) p))"

subsection \<open>Calls that leave the notebook\<close>

definition os_getcwd :: "world \<Rightarrow> path nb" where
  "os_getcwd w = bind (emit (Getcwd (ext_getcwd w))) (\<lambda>_. ret (ext_getcwd w))"

definition os_listdir :: "world \<Rightarrow> path \<Rightarrow> string list nb" where
  "os_listdir w p = call_val (Listdir p) (ext_listdir w p)"

definition os_path_exists :: "world \<Rightarrow> path \<Rightarrow> bool nb" where
  "os_path_exists w p = bind (emit (PathExists p (ext_exists w p))) (\<lambda>_. ret (ext_exists w p))"

text \<open>
  pathlib's \<^verbatim>\<open>Path.exists()\<close>: \<^verbatim>\<open>True\<close> when \<^verbatim>\<open>stat\<close> returns, \<^verbatim>\<open>False\<close> when it fails
  with \<^verbatim>\<open>ENOENT\<close>, \<^verbatim>\<open>ENOTDIR\<close>, \<^verbatim>\<open>EBADF\<close> or \<^verbatim>\<open>ELOOP\<close>; any other \<^verbatim>\<open>OSError\<close>
  is raised again. \<^verbatim>\<open>os.path.exists\<close> swallows them all.
\<close>

definition pathlib_exists_result :: "world \<Rightarrow> path \<Rightarrow> error + bool" where
  "pathlib_exists_result w p =
     (case ext_stat_error w p of Some e \<Rightarrow> Inl e | None \<Rightarrow> Inr (ext_exists w p))"

definition pathlib_exists :: "world \<Rightarrow> path \<Rightarrow> bool nb" where
  "pathlib_exists w p =
     (\<lambda>s. (pathlib_exists_result w p,
           s\<lparr>trace := trace s @ [PathlibExists p (pathlib_exists_result w p)]\<rparr>))"

definition dotenv_load_dotenv :: "world \<Rightarrow> path \<Rightarrow> unit nb" where
  "dotenv_load_dotenv w f =
     (\<lambda>s. case ext_load_dotenv w f (environ s) of
             Inl e \<Rightarrow> (Inl e, s\<lparr>trace := trace s @ [LoadDotenv f (Some e)]\<rparr>)
           | Inr env' \<Rightarrow> (Inr (), s\<lparr>environ := env', trace := trace s @ [LoadDotenv f None]\<rparr>))"

definition os_getenv :: "string \<Rightarrow> string option nb" where
  "os_getenv key = (\<lambda>s. (Inr (environ s key), s\<lparr>trace := trace s @ [Getenv key (environ s key)]\<rparr>))"

subsection \<open>Cell: set project path\<close>

text \<open>
  \<^verbatim>\<open>for p in current_dir.parents:\<close> with its \<^verbatim>\<open>else\<close> branch. The loop variable
  \<open>p\<close> is not used by the body: both listings are of \<^verbatim>\<open>current_dir.parent\<close>.
  The \<^verbatim>\<open>or\<close> is short-circuit, so the second listing is read only when the first has
  no \<^verbatim>\<open>.git\<close>.
\<close>

definition no_root :: error where
  "no_root = PyException ''No root directory was found that contains a .git directory''"

fun root_loop :: "world \<Rightarrow> path \<Rightarrow> path list \<Rightarrow> path nb" where
  "root_loop w current_dir [] = raise no_root"
| "root_loop w current_dir (p # ps) =
     bind (os_listdir w (parent current_dir)) (\<lambda>l1.
       if ''.git'' \<in> set l1
       then bind (py_print [OutStr (posix (parent current_dir))]) (\<lambda>_. ret (parent current_dir))
       else bind (os_listdir w (parent current_dir)) (\<lambda>l2.
         if ''.project-root'' \<in> set l2
         then bind (py_print [OutStr (posix (parent current_dir))]) (\<lambda>_. ret (parent current_dir))
         else root_loop w current_dir ps))"

definition cell_root :: "world \<Rightarrow> path nb" where
  "cell_root w = bind (os_getcwd w) (\<lambda>current_dir. root_loop w current_dir (parents current_dir))"

subsection \<open>Cell: load variables into env\<close>

definition cell_secrets :: "world \<Rightarrow> path \<Rightarrow> unit nb" where
  "cell_secrets w root_dir =
     (let f = truediv (truediv root_dir ''.secrets'') ''.env'' in
      bind (pathlib_exists w f) (\<lambda>found.
      bind (py_assert found (Some (''File not found: '' @ posix f))) (\<lambda>_.
      dotenv_load_dotenv w f)))"

subsection \<open>Cell: the two example documents\<close>

text \<open>The cell binds the list and calls nothing; no later cell reads it.\<close>

definition documents :: "document list" where
  "documents =
     [\<lparr>page_content = ''Dogs are great companions, known for their loyalty and friendliness.'',
       metadata = [(''source'', MStr ''mammal-pets-doc'')], doc_id = None\<rparr>,
      \<lparr>page_content = ''Cats are independent pets that often enjoy their own space.'',
       metadata = [(''source'', MStr ''mammal-pets-doc'')], doc_id = None\<rparr>]"

subsection \<open>Cell: document loader\<close>

definition cell_load :: "world \<Rightarrow> path \<Rightarrow> document list nb" where
  "cell_load w root_dir =
     (let file_path = truediv (truediv root_dir ''data'') ''vmd_sample.pdf'' in
      bind (os_path_exists w file_path) (\<lambda>found.
      bind (py_assert found None) (\<lambda>_.
      bind (call_unit (LoaderInit file_path) (ext_loader_init w file_path)) (\<lambda>_.
      bind (call_val (LoaderLoad file_path) (ext_loader_load w file_path)) (\<lambda>docs.
      bind (py_print [OutStr ''len(docs)='', OutNat (length docs)]) (\<lambda>_.
      bind (py_print [OutStr ''CONTENT'']) (\<lambda>_.
      bind (getitem docs 37) (\<lambda>d37.
      bind (py_print [OutStr (take 200 (page_content d37) @ [CHR 0x0A])]) (\<lambda>_.
      bind (getitem docs 0) (\<lambda>d0.
      bind (py_print [OutMeta (metadata d0)]) (\<lambda>_.
      ret docs)))))))))))"

subsection \<open>Cell: splitting text\<close>

text \<open>
  The splitter is built once, from literals, and applied to the loaded pages. How it
  cuts a page is the library's business: the chunks are whatever the world returns.
\<close>

definition text_splitter :: splitter_config where
  "text_splitter = \<lparr>chunk_size = 1000, chunk_overlap = 200, add_start_index = True\<rparr>"

definition cell_split :: "world \<Rightarrow> document list \<Rightarrow> document list nb" where
  "cell_split w docs =
     bind (call_unit (SplitterInit text_splitter) (ext_splitter_init w text_splitter)) (\<lambda>_.
     call_val (SplitDocuments text_splitter) (ext_split_documents w text_splitter docs))"

subsection \<open>Cells: embeddings\<close>

text \<open>
  The example cell embeds the first two chunks and prints whether the two vectors have
  the same length; it does not require it.
\<close>

definition embeddings_model :: string where
  "embeddings_model = ''llama3.2''"

definition cell_embeddings :: "world \<Rightarrow> unit nb" where
  "cell_embeddings w =
     call_unit (EmbeddingsInit embeddings_model) (ext_embeddings_init w embeddings_model)"

definition embed_query :: "world \<Rightarrow> string \<Rightarrow> real list nb" where
  "embed_query w txt =
     call_val (EmbedQuery embeddings_model txt) (ext_embed_query w embeddings_model txt)"

definition cell_embed_example :: "world \<Rightarrow> document list \<Rightarrow> unit nb" where
  "cell_embed_example w all_splits =
     bind (getitem all_splits 0) (\<lambda>c0.
     bind (embed_query w (page_content c0)) (\<lambda>vector_1.
     bind (getitem all_splits 1) (\<lambda>c1.
     bind (embed_query w (page_content c1)) (\<lambda>vector_2.
     bind (py_print [OutStr ''Both embedding have same length:'',
                     OutBool (length vector_1 = length vector_2)]) (\<lambda>_.
     bind (py_print [OutStr ''Generated vectors of length '', OutNat (length vector_1),
                     OutStr [CHR 0x0A]]) (\<lambda>_.
     py_print [OutVec (take 5 vector_1)]))))))"

subsection \<open>Cells: vector store\<close>

text \<open>
  The \<^verbatim>\<open>try\<close> block holds the ping and the success message; its handler prints the
  exception and the cell ends normally.
\<close>

definition cell_mongo :: "world \<Rightarrow> string option nb" where
  "cell_mongo w =
     bind (os_getenv ''MONGODB_URI'') (\<lambda>uri.
     bind (call_unit (MongoClientInit uri ''1'') (ext_mongo_client w uri ''1'')) (\<lambda>_.
     bind (try_except
             (bind (call_unit (AdminCommand ''ping'') (ext_admin_command w uri ''ping'')) (\<lambda>_.
              py_print [OutStr ''Pinged your deployment. You successfully connected to MongoDB!'']))
             (\<lambda>e. py_print [OutErr e])) (\<lambda>_.
     ret uri)))"

definition DB_NAME :: string where
  "DB_NAME = ''langchain_demo''"

definition COLLECTION_NAME :: string where
  "COLLECTION_NAME = ''emp-policy''"

definition ATLAS_VECTOR_SEARCH_INDEX_NAME :: string where
  "ATLAS_VECTOR_SEARCH_INDEX_NAME = ''vector_index''"

definition cell_vector_store :: "world \<Rightarrow> unit nb" where
  "cell_vector_store w =
     call_unit (VectorStoreInit DB_NAME COLLECTION_NAME ATLAS_VECTOR_SEARCH_INDEX_NAME ''cosine'')
       (ext_vector_store w DB_NAME COLLECTION_NAME ATLAS_VECTOR_SEARCH_INDEX_NAME ''cosine'')"

subsection \<open>The notebook, top to bottom\<close>

text \<open>
  The cells run in the order of the file. They are grouped as the notebook's headings
  group them: the project path and the secrets first, then "LangChain Document Object"
  (loader and splitter), "Embeddings", and "Vector stores".
\<close>

definition section_documents :: "world \<Rightarrow> path \<Rightarrow> document list nb" where
  "section_documents w root_dir =
     bind (cell_load w root_dir) (\<lambda>docs. cell_split w docs)"

definition section_embeddings :: "world \<Rightarrow> document list \<Rightarrow> unit nb" where
  "section_embeddings w all_splits =
     bind (cell_embeddings w) (\<lambda>_. cell_embed_example w all_splits)"

definition section_vector_stores :: "world \<Rightarrow> unit nb" where
  "section_vector_stores w =
     bind (cell_mongo w) (\<lambda>client. cell_vector_store w)"

definition notebook :: "world \<Rightarrow> unit nb" where
  "notebook w =
     bind (cell_root w) (\<lambda>root_dir.
     bind (cell_secrets w root_dir) (\<lambda>_.
     bind (section_documents w root_dir) (\<lambda>all_splits.
     bind (section_embeddings w all_splits) (\<lambda>_.
     section_vector_stores w))))"

definition init :: "world \<Rightarrow> nb_state" where
  "init w = \<lparr>environ = ext_environ w, trace = []\<rparr>"

definition run :: "world \<Rightarrow> (error + unit) \<times> nb_state" where
  "run w = notebook w (init w)"

section \<open>Reading a run\<close>

subsection \<open>Reading a trace\<close>

fun raised :: "event \<Rightarrow> error option" where
  "raised (Getcwd p) = None"
| "raised (Listdir p r) = r"
| "raised (PathExists p b) = None"
| "raised (PathlibExists p r) = (case r of Inl e \<Rightarrow> Some e | Inr b \<Rightarrow> None)"
| "raised (LoadDotenv p r) = r"
| "raised (LoaderInit p r) = r"
| "raised (LoaderLoad p r) = r"
| "raised (SplitterInit c r) = r"
| "raised (SplitDocuments c r) = r"
| "raised (EmbeddingsInit m r) = r"
| "raised (EmbedQuery m t r) = r"
| "raised (Getenv k v) = None"
| "raised (MongoClientInit u a r) = r"
| "raised (AdminCommand c r) = r"
| "raised (VectorStoreInit d c i f r) = r"
| "raised (Print a) = None"
| "raised (Raised e) = Some e"

fun is_ping :: "event \<Rightarrow> bool" where
  "is_ping (AdminCommand c r) = (c = ''ping'')"
| "is_ping ev = False"

fun is_loader_call :: "event \<Rightarrow> bool" where
  "is_loader_call (LoaderInit p r) = True"
| "is_loader_call (LoaderLoad p r) = True"
| "is_loader_call ev = False"

fun is_embedding_call :: "event \<Rightarrow> bool" where
  "is_embedding_call (EmbeddingsInit m r) = True"
| "is_embedding_call (EmbedQuery m t r) = True"
| "is_embedding_call ev = False"

fun is_splitter_call :: "event \<Rightarrow> bool" where
  "is_splitter_call (SplitterInit c r) = True"
| "is_splitter_call (SplitDocuments c r) = True"
| "is_splitter_call ev = False"

fun is_store_call :: "event \<Rightarrow> bool" where
  "is_store_call (MongoClientInit u a r) = True"
| "is_store_call (AdminCommand c r) = True"
| "is_store_call (VectorStoreInit d c i f r) = True"
| "is_store_call ev = False"

text \<open>The events of the set-up cells, and the events of all cells before "Vector stores".\<close>

fun setup_event :: "event \<Rightarrow> bool" where
  "setup_event (Getcwd p) = True"
| "setup_event (Listdir p r) = True"
| "setup_event (PathExists p b) = True"
| "setup_event (PathlibExists p r) = True"
| "setup_event (LoadDotenv p r) = True"
| "setup_event (Print a) = True"
| "setup_event (Raised e) = True"
| "setup_event ev = False"

fun early_event :: "event \<Rightarrow> bool" where
  "early_event (Getenv k v) = False"
| "early_event (MongoClientInit u a r) = False"
| "early_event (AdminCommand c r) = False"
| "early_event (VectorStoreInit d c i f r) = False"
| "early_event ev = True"

text \<open>
  An event is quiet when it records no exception, or is the ping. A run that has raised
  \<open>e\<close> has a trace that is \<open>failing e\<close>: quiet up to its last event, which records \<open>e\<close>
  and is not the ping. \<open>steps P m\<close> says that \<open>m\<close>, from any state, appends events of
  the alphabet \<open>P\<close> only, all quiet when \<open>m\<close> returns, failing with \<open>e\<close> when it raises \<open>e\<close>.
\<close>

definition quiet :: "event \<Rightarrow> bool" where
  "quiet ev = (raised ev \<noteq> None \<longrightarrow> is_ping ev)"

definition failing :: "error \<Rightarrow> event list \<Rightarrow> bool" where
  "failing e evs =
     (evs \<noteq> [] \<and> (\<forall>ev\<in>set (butlast evs). quiet ev) \<and> raised (last evs) = Some e \<and> \<not> is_ping (last evs))"

definition outcome_ok :: "error + 'a \<Rightarrow> event list \<Rightarrow> bool" where
  "outcome_ok r evs = (case r of Inr x \<Rightarrow> (\<forall>ev\<in>set evs. quiet ev) | Inl e \<Rightarrow> failing e evs)"

definition steps :: "(event \<Rightarrow> bool) \<Rightarrow> 'a nb \<Rightarrow> bool" where
  "steps P m =
     (\<forall>s. \<exists>evs. trace (snd (m s)) = trace s @ evs \<and> (\<forall>ev\<in>set evs. P ev)
                \<and> outcome_ok (fst (m s)) evs)"

text \<open>Everything before the "Vector stores" section, as one computation.\<close>

definition before_vector_stores :: "world \<Rightarrow> unit nb" where
  "before_vector_stores w =
     bind (cell_root w) (\<lambda>root_dir.
     bind (cell_secrets w root_dir) (\<lambda>_.
     bind (section_documents w root_dir) (\<lambda>all_splits.
     section_embeddings w all_splits)))"

text \<open>What the ping's \<^verbatim>\<open>try\<close> statement prints: the success line, or the exception.\<close>

definition ping_message :: "error option \<Rightarrow> printed list" where
  "ping_message r =
     (case r of None \<Rightarrow> [OutStr ''Pinged your deployment. You successfully connected to MongoDB!'']
      | Some e \<Rightarrow> [OutErr e])"

subsection \<open>Sample worlds\<close>

text \<open>
  A world in which every call succeeds: the notebook sits in \<^verbatim>\<open>/home/user/RAG/notebooks\<close>,
  the repository root \<^verbatim>\<open>/home/user/RAG\<close> holds \<^verbatim>\<open>.git\<close>, the PDF has 38 pages, the
  secrets file defines \<^verbatim>\<open>MONGODB_URI\<close>. The other worlds change one answer each.
\<close>

definition sample_page :: document where
  "sample_page = \<lparr>page_content = ''Visual Molecular Dynamics'', metadata = [(''page'', MInt 0)], doc_id = None\<rparr>"

definition world_ok :: world where
  "world_ok =
     \<lparr>ext_getcwd = [''home'', ''user'', ''RAG'', ''notebooks''],
      ext_environ = Map.empty,
      ext_listdir = (\<lambda>p. if p = [''home'', ''user'', ''RAG'']
                           then Inr [''data'', ''.git'', ''.secrets'', ''notebooks''] else Inr []),
      ext_exists = (\<lambda>p. True),
      ext_stat_error = (\<lambda>p. None),
      ext_load_dotenv = (\<lambda>f env. Inr (env(''MONGODB_URI'' \<mapsto> ''mongodb://localhost:27017''))),
      ext_loader_init = (\<lambda>p. None),
      ext_loader_load = (\<lambda>p. Inr (replicate 38 sample_page)),
      ext_splitter_init = (\<lambda>c. None),
      ext_split_documents = (\<lambda>c docs. Inr docs),
      ext_embeddings_init = (\<lambda>m. None),
      ext_embed_query = (\<lambda>m t. Inr [1, 2, 3]),
      ext_mongo_client = (\<lambda>u a. None),
      ext_admin_command = (\<lambda>u c. None),
      ext_vector_store = (\<lambda>d c i f. None)\<rparr>"

definition world_ping_down :: world where
  "world_ping_down = world_ok\<lparr>ext_admin_command := (\<lambda>u c. Some (LibError ''ServerSelectionTimeoutError''))\<rparr>"

definition world_connection_uri :: world where
  "world_connection_uri =
     world_ok\<lparr>ext_load_dotenv := (\<lambda>f env. Inr (env(''CONNECTION_URI'' \<mapsto> ''mongodb://db.example:27017'')))\<rparr>"

definition world_no_pdf :: world where
  "world_no_pdf = world_ok\<lparr>ext_exists := (\<lambda>p. p \<noteq> [''home'', ''user'', ''RAG'', ''data'', ''vmd_sample.pdf''])\<rparr>"

definition world_no_secrets :: world where
  "world_no_secrets = world_ok\<lparr>ext_exists := (\<lambda>p. p \<noteq> [''home'', ''user'', ''RAG'', ''.secrets'', ''.env''])\<rparr>"

text \<open>
  No secrets file, under a \<^verbatim>\<open>.secrets\<close> directory that may not be searched:
  \<^verbatim>\<open>os.path.exists\<close> answers \<^verbatim>\<open>False\<close>, \<^verbatim>\<open>stat\<close> raises \<^verbatim>\<open>PermissionError\<close>.
\<close>

definition world_secrets_unsearchable :: world where
  "world_secrets_unsearchable =
     world_ok\<lparr>ext_exists := (\<lambda>p. p \<noteq> [''home'', ''user'', ''RAG'', ''.secrets'', ''.env'']),
              ext_stat_error := (\<lambda>p. if p = [''home'', ''user'', ''RAG'', ''.secrets'', ''.env'']
                                     then Some (LibError ''PermissionError'') else None)\<rparr>"

text \<open>
  The notebook one directory further down: its parent \<^verbatim>\<open>/home/user/RAG/notebooks\<close> holds
  no marker, the ancestor \<^verbatim>\<open>/home/user/RAG\<close> above it holds \<^verbatim>\<open>.git\<close>.
\<close>

definition world_nested :: world where
  "world_nested = world_ok\<lparr>ext_getcwd := [''home'', ''user'', ''RAG'', ''notebooks'', ''drafts'']\<rparr>"

section \<open>Lemmas\<close>

subsection \<open>The root loop in closed form\<close>

lemmas prims = bind_def ret_def emit_def raise_def call_unit_def call_val_def os_getenv_def
  dotenv_load_dotenv_def py_print_def py_assert_def getitem_def try_except_def
  os_getcwd_def os_listdir_def os_path_exists_def pathlib_exists_def pathlib_exists_result_def

lemma root_loop_run:
  "root_loop w cd ps s =
     (if ps = [] then (Inl no_root, s\<lparr>trace := trace s @ [Raised no_root]\<rparr>)
      else case ext_listdir w (parent cd) of
        Inl e \<Rightarrow> (Inl e, s\<lparr>trace := trace s @ [Listdir (parent cd) (Some e)]\<rparr>)
      | Inr l \<Rightarrow>
          if ''.git'' \<in> set l
          then (Inr (parent cd),
                s\<lparr>trace := trace s @ [Listdir (parent cd) None, Print [OutStr (posix (parent cd))]]\<rparr>)
          else if ''.project-root'' \<in> set l
          then (Inr (parent cd),
                s\<lparr>trace := trace s @ [Listdir (parent cd) None, Listdir (parent cd) None,
                                        Print [OutStr (posix (parent cd))]]\<rparr>)
          else (Inl no_root,
                s\<lparr>trace := trace s
                   @ concat (replicate (length ps) [Listdir (parent cd) None, Listdir (parent cd) None])
                   @ [Raised no_root]\<rparr>))"
proof (induction ps arbitrary: s)
  case Nil
  show ?case by (simp add: prims no_root_def)
next
  case (Cons p ps)
  show ?case
  proof (cases "ext_listdir w (parent cd)")
    case (Inl e)
    then show ?thesis by (simp add: prims)
  next
    case (Inr l)
    then show ?thesis
      using Cons.IH
      by (cases "ps = []") (simp_all add: prims no_root_def)
  qed
qed

lemma parents_Nil_iff: "parents p = [] \<longleftrightarrow> p = []"
  by (simp add: parents_def)

lemma length_parents: "length (parents p) = length p"
  by (simp add: parents_def)

lemma cell_root_run:
  "cell_root w s =
     root_loop w (ext_getcwd w) (parents (ext_getcwd w)) (s\<lparr>trace := trace s @ [Getcwd (ext_getcwd w)]\<rparr>)"
  by (simp add: cell_root_def prims)

subsection \<open>Sequencing\<close>

lemma bind_Inl: "fst (m s) = Inl e \<Longrightarrow> bind m f s = (Inl e, snd (m s))"
  by (cases "m s") (simp add: bind_def)

lemma bind_assoc: "bind (bind m f) g = bind m (\<lambda>x. bind (f x) g)"
proof
  fix s
  show "bind (bind m f) g s = bind m (\<lambda>x. bind (f x) g) s"
    by (cases "m s") (auto simp: bind_def split: sum.splits)
qed

lemma notebook_split: "notebook w = bind (before_vector_stores w) (\<lambda>_. section_vector_stores w)"
  by (simp add: notebook_def before_vector_stores_def bind_assoc)

subsection \<open>Every cell before the vector store keeps the trace discipline\<close>

lemma failing_append:
  assumes "\<forall>ev\<in>set evs1. quiet ev" and "failing e evs2"
  shows "failing e (evs1 @ evs2)"
proof -
  from assms(2) have ne: "evs2 \<noteq> []" by (simp add: failing_def)
  then have "butlast (evs1 @ evs2) = evs1 @ butlast evs2" "last (evs1 @ evs2) = last evs2"
    by (simp_all add: butlast_append)
  with assms ne show ?thesis by (auto simp: failing_def)
qed

lemma outcome_ok_append:
  assumes "\<forall>ev\<in>set evs1. quiet ev" and "outcome_ok r evs2"
  shows "outcome_ok r (evs1 @ evs2)"
  using assms by (cases r) (auto simp: outcome_ok_def failing_append)

lemma stepsI:
  assumes "\<And>s. trace (snd (m s)) = trace s @ evs s \<and> (\<forall>ev\<in>set (evs s). P ev)
                \<and> outcome_ok (fst (m s)) (evs s)"
  shows "steps P m"
  unfolding steps_def using assms by blast

lemma stepsE:
  assumes "steps P m"
  obtains evs where "trace (snd (m s)) = trace s @ evs"
    and "\<forall>ev\<in>set evs. P ev" and "outcome_ok (fst (m s)) evs"
  using assms unfolding steps_def by blast

lemma bind_Inr: "fst (m s) = Inr x \<Longrightarrow> bind m f s = f x (snd (m s))"
  by (cases "m s") (simp add: bind_def)

lemma steps_bind:
  assumes m: "steps P m" and f: "\<And>x. steps P (f x)"
  shows "steps P (bind m f)"
  unfolding steps_def
proof
  fix s :: nb_state
  obtain evs1 where s1: "trace (snd (m s)) = trace s @ evs1"
    and p1: "\<forall>ev\<in>set evs1. P ev" and o1: "outcome_ok (fst (m s)) evs1"
    using m by (rule stepsE)
  show "\<exists>evs. trace (snd (bind m f s)) = trace s @ evs
          \<and> (\<forall>ev\<in>set evs. P ev) \<and> outcome_ok (fst (bind m f s)) evs"
  proof (cases "fst (m s)")
    case (Inl e)
    then have "bind m f s = (Inl e, snd (m s))"
      by (rule bind_Inl)
    with s1 p1 o1 Inl have "trace (snd (bind m f s)) = trace s @ evs1
        \<and> (\<forall>ev\<in>set evs1. P ev) \<and> outcome_ok (fst (bind m f s)) evs1"
      by (simp add: outcome_ok_def)
    then show ?thesis by (rule exI)
  next
    case (Inr x)
    then have b: "bind m f s = f x (snd (m s))"
      by (rule bind_Inr)
    obtain evs2 where s2: "trace (snd (f x (snd (m s)))) = trace (snd (m s)) @ evs2"
      and p2: "\<forall>ev\<in>set evs2. P ev" and o2: "outcome_ok (fst (f x (snd (m s)))) evs2"
      using f by (rule stepsE)
    from o1 Inr have q1: "\<forall>ev\<in>set evs1. quiet ev" by (simp add: outcome_ok_def)
    have "trace (snd (bind m f s)) = trace s @ (evs1 @ evs2)
        \<and> (\<forall>ev\<in>set (evs1 @ evs2). P ev) \<and> outcome_ok (fst (bind m f s)) (evs1 @ evs2)"
      using b s1 s2 p1 p2 outcome_ok_append [OF q1 o2] by auto
    then show ?thesis by (rule exI)
  qed
qed

lemma steps_mono:
  assumes "steps P m" and "\<And>ev. P ev \<Longrightarrow> Q ev"
  shows "steps Q m"
  using assms unfolding steps_def by meson

lemma steps_ret: "steps P (ret x)"
  by (rule stepsI [where evs = "\<lambda>s. []"]) (simp add: ret_def outcome_ok_def)

lemma steps_emit:
  assumes "P ev" and "raised ev = None"
  shows "steps P (emit ev)"
  by (rule stepsI [where evs = "\<lambda>s. [ev]"]) (simp add: emit_def outcome_ok_def quiet_def assms)

lemma steps_print: "P (Print args) \<Longrightarrow> steps P (py_print args)"
  unfolding py_print_def by (rule steps_emit) simp_all

lemma steps_raise:
  assumes "P (Raised e)"
  shows "steps P (raise e)"
  by (rule stepsI [where evs = "\<lambda>s. [Raised e]"]) (simp add: raise_def outcome_ok_def failing_def assms)

lemma steps_call_unit:
  assumes "P (ev r)" and "raised (ev r) = r" and "\<not> is_ping (ev r)"
  shows "steps P (call_unit ev r)"
  using assms
  by (intro stepsI [where evs = "\<lambda>s. [ev r]"], cases r)
    (simp_all add: call_unit_def outcome_ok_def failing_def quiet_def)

lemma steps_call_val:
  assumes "\<And>y. P (ev y)" and "\<And>y. raised (ev y) = y" and "\<And>y. \<not> is_ping (ev y)"
  shows "steps P (call_val ev r)"
  using assms
  by (intro stepsI [where evs = "\<lambda>s. [ev (case r of Inl e \<Rightarrow> Some e | Inr x \<Rightarrow> None)]"], cases r)
    (simp_all add: call_val_def outcome_ok_def failing_def quiet_def)

lemma steps_if:
  assumes "c \<Longrightarrow> steps P a" and "\<not> c \<Longrightarrow> steps P b"
  shows "steps P (if c then a else b)"
  using assms by simp

lemma steps_assert:
  assumes "P (Raised (AssertionError msg))"
  shows "steps P (py_assert c msg)"
  unfolding py_assert_def by (intro steps_if steps_ret steps_raise assms)

lemma steps_getitem:
  assumes "P (Raised IndexError)"
  shows "steps P (getitem xs i)"
  unfolding getitem_def by (intro steps_if steps_ret steps_raise assms)

lemma steps_path_exists:
  assumes "\<And>b. P (PathExists p b)"
  shows "steps P (os_path_exists w p)"
  unfolding os_path_exists_def by (intro steps_bind steps_emit steps_ret assms) simp

lemma steps_pathlib_exists:
  assumes "\<And>r. P (PathlibExists p r)"
  shows "steps P (pathlib_exists w p)"
  using assms
  by (intro stepsI [where evs = "\<lambda>s. [PathlibExists p (pathlib_exists_result w p)]"],
      cases "pathlib_exists_result w p")
    (simp_all add: pathlib_exists_def outcome_ok_def failing_def quiet_def)

lemma steps_load_dotenv:
  assumes "\<And>r. P (LoadDotenv f r)"
  shows "steps P (dotenv_load_dotenv w f)"
proof (rule stepsI [where evs = "\<lambda>s. [LoadDotenv f (case ext_load_dotenv w f (environ s) of
                                       Inl e \<Rightarrow> Some e | Inr x \<Rightarrow> None)]"])
  fix s :: nb_state
  show "trace (snd (dotenv_load_dotenv w f s)) = trace s @ [LoadDotenv f (case ext_load_dotenv w f (environ s) of
                                       Inl e \<Rightarrow> Some e | Inr x \<Rightarrow> None)] \<and>
         (\<forall>ev\<in>set [LoadDotenv f (case ext_load_dotenv w f (environ s) of
                                       Inl e \<Rightarrow> Some e | Inr x \<Rightarrow> None)]. P ev) \<and>
         outcome_ok (fst (dotenv_load_dotenv w f s)) [LoadDotenv f (case ext_load_dotenv w f (environ s) of
                                       Inl e \<Rightarrow> Some e | Inr x \<Rightarrow> None)]"
    using assms
    by (cases "ext_load_dotenv w f (environ s)")
      (simp_all add: dotenv_load_dotenv_def outcome_ok_def failing_def quiet_def)
qed

lemma steps_root_loop: "steps setup_event (root_loop w cd ps)"
proof (induction ps)
  case Nil
  show ?case by (simp add: steps_raise)
next
  case (Cons p ps)
  show ?case
    unfolding root_loop.simps os_listdir_def
    by (intro steps_bind steps_call_val steps_if steps_print steps_ret Cons.IH) simp_all
qed

lemma steps_cell_root: "steps setup_event (cell_root w)"
  unfolding cell_root_def os_getcwd_def
  by (intro steps_bind steps_emit steps_ret steps_root_loop) simp_all

lemma steps_cell_secrets: "steps setup_event (cell_secrets w root_dir)"
  unfolding cell_secrets_def Let_def
  by (intro steps_bind steps_pathlib_exists steps_assert steps_load_dotenv) simp_all

lemma steps_cell_load: "steps early_event (cell_load w root_dir)"
  unfolding cell_load_def Let_def
  by (intro steps_bind steps_path_exists steps_assert steps_call_unit steps_call_val
        steps_print steps_getitem steps_ret) simp_all

lemma steps_cell_split: "steps early_event (cell_split w docs)"
  unfolding cell_split_def
  by (intro steps_bind steps_call_unit steps_call_val) simp_all

lemma steps_section_documents: "steps early_event (section_documents w root_dir)"
  unfolding section_documents_def
  by (intro steps_bind steps_cell_load steps_cell_split)

lemma steps_section_embeddings: "steps early_event (section_embeddings w all_splits)"
  unfolding section_embeddings_def cell_embeddings_def cell_embed_example_def embed_query_def
  by (intro steps_bind steps_call_unit steps_call_val steps_print steps_getitem) simp_all

lemma setup_early: "setup_event ev \<Longrightarrow> early_event ev"
  by (cases ev) simp_all

lemma steps_before_vector_stores: "steps early_event (before_vector_stores w)"
  unfolding before_vector_stores_def
  by (intro steps_bind steps_section_documents steps_section_embeddings
        steps_mono [OF steps_cell_root setup_early] steps_mono [OF steps_cell_secrets setup_early])

subsection \<open>The shape of a run\<close>

lemma section_vector_stores_run:
  "section_vector_stores w s =
     (case ext_mongo_client w (environ s ''MONGODB_URI'') ''1'' of
        Some e \<Rightarrow>
          (Inl e, s\<lparr>trace := trace s @
             [Getenv ''MONGODB_URI'' (environ s ''MONGODB_URI''),
              MongoClientInit (environ s ''MONGODB_URI'') ''1'' (Some e)]\<rparr>)
      | None \<Rightarrow>
          (case ext_vector_store w DB_NAME COLLECTION_NAME ATLAS_VECTOR_SEARCH_INDEX_NAME ''cosine'' of
             None \<Rightarrow> Inr () | Some e \<Rightarrow> Inl e,
           s\<lparr>trace := trace s @
             [Getenv ''MONGODB_URI'' (environ s ''MONGODB_URI''),
              MongoClientInit (environ s ''MONGODB_URI'') ''1'' None,
              AdminCommand ''ping'' (ext_admin_command w (environ s ''MONGODB_URI'') ''ping''),
              Print (ping_message (ext_admin_command w (environ s ''MONGODB_URI'') ''ping'')),
              VectorStoreInit DB_NAME COLLECTION_NAME ATLAS_VECTOR_SEARCH_INDEX_NAME ''cosine''
                (ext_vector_store w DB_NAME COLLECTION_NAME ATLAS_VECTOR_SEARCH_INDEX_NAME ''cosine'')]\<rparr>))"
  by (simp add: section_vector_stores_def cell_mongo_def cell_vector_store_def prims ping_message_def
      split: option.splits)

text \<open>A run either stops before the vector-store section, or enters it from a state
  whose trace holds only events of the earlier cells, none of them a failure.\<close>

lemma notebook_cases:
  obtains (early) e evs s' where "notebook w s = (Inl e, s')" and "trace s' = trace s @ evs"
      and "\<forall>ev\<in>set evs. early_event ev" and "failing e evs"
  | (store) evs s' where "notebook w s = section_vector_stores w s'" and "trace s' = trace s @ evs"
      and "\<forall>ev\<in>set evs. early_event ev" and "\<forall>ev\<in>set evs. quiet ev"
proof -
  let ?m = "before_vector_stores w"
  obtain evs where t: "trace (snd (?m s)) = trace s @ evs"
    and p: "\<forall>ev\<in>set evs. early_event ev" and o: "outcome_ok (fst (?m s)) evs"
    using steps_before_vector_stores by (rule stepsE)
  show thesis
  proof (cases "fst (?m s)")
    case (Inl e)
    then have n: "notebook w s = (Inl e, snd (?m s))"
      unfolding notebook_split by (rule bind_Inl)
    from o Inl have "failing e evs" by (simp add: outcome_ok_def)
    with n t p show thesis by (rule early)
  next
    case (Inr u)
    then have n: "notebook w s = section_vector_stores w (snd (?m s))"
      unfolding notebook_split by (rule bind_Inr)
    from o Inr have "\<forall>ev\<in>set evs. quiet ev" by (simp add: outcome_ok_def)
    with n t p show thesis by (rule store)
  qed
qed

lemmas cells = run_def init_def notebook_def section_documents_def section_embeddings_def
  section_vector_stores_def cell_root_def cell_secrets_def cell_load_def
  cell_split_def cell_embeddings_def cell_embed_example_def cell_mongo_def cell_vector_store_def
  parent_def parents_def truediv_def posix_def embed_query_def Let_def

lemmas worlds = world_ok_def sample_page_def

lemma run_cases:
  obtains (early) e evs where "fst (run w) = Inl e" and "trace (snd (run w)) = evs"
      and "\<forall>ev\<in>set evs. early_event ev" and "failing e evs"
  | (client) e evs where "fst (run w) = Inl e"
      and "trace (snd (run w)) = evs @
             [Getenv ''MONGODB_URI'' (environ (snd (run w)) ''MONGODB_URI''),
              MongoClientInit (environ (snd (run w)) ''MONGODB_URI'') ''1'' (Some e)]"
      and "\<forall>ev\<in>set evs. early_event ev" and "\<forall>ev\<in>set evs. quiet ev"
  | (store) evs r2 r3 where "fst (run w) = (case r3 of None \<Rightarrow> Inr () | Some e \<Rightarrow> Inl e)"
      and "trace (snd (run w)) = evs @
             [Getenv ''MONGODB_URI'' (environ (snd (run w)) ''MONGODB_URI''),
              MongoClientInit (environ (snd (run w)) ''MONGODB_URI'') ''1'' None,
              AdminCommand ''ping'' r2, Print (ping_message r2),
              VectorStoreInit DB_NAME COLLECTION_NAME ATLAS_VECTOR_SEARCH_INDEX_NAME ''cosine'' r3]"
      and "\<forall>ev\<in>set evs. early_event ev" and "\<forall>ev\<in>set evs. quiet ev"
proof (cases rule: notebook_cases [of w "init w"])
  case (early e evs s')
  then have "fst (run w) = Inl e" "trace (snd (run w)) = evs"
    by (simp_all add: run_def init_def)
  then show thesis using early(3,4) by (rule that(1))
next
  case (store evs s')
  then have r: "run w = section_vector_stores w s'" and t: "trace s' = evs"
    by (simp_all add: run_def init_def)
  show thesis
  proof (cases "ext_mongo_client w (environ s' ''MONGODB_URI'') ''1''")
    case (Some e)
    with r t have "fst (run w) = Inl e"
      and "trace (snd (run w)) = evs @
             [Getenv ''MONGODB_URI'' (environ (snd (run w)) ''MONGODB_URI''),
              MongoClientInit (environ (snd (run w)) ''MONGODB_URI'') ''1'' (Some e)]"
      by (simp_all add: section_vector_stores_run)
    then show thesis using store(3,4) by (rule that(2))
  next
    case None
    with r t have "fst (run w) = (case ext_vector_store w DB_NAME COLLECTION_NAME
                      ATLAS_VECTOR_SEARCH_INDEX_NAME ''cosine'' of None \<Rightarrow> Inr () | Some e \<Rightarrow> Inl e)"
      and "trace (snd (run w)) = evs @
             [Getenv ''MONGODB_URI'' (environ (snd (run w)) ''MONGODB_URI''),
              MongoClientInit (environ (snd (run w)) ''MONGODB_URI'') ''1'' None,
              AdminCommand ''ping'' (ext_admin_command w (environ s' ''MONGODB_URI'') ''ping''),
              Print (ping_message (ext_admin_command w (environ s' ''MONGODB_URI'') ''ping'')),
              VectorStoreInit DB_NAME COLLECTION_NAME ATLAS_VECTOR_SEARCH_INDEX_NAME ''cosine''
                (ext_vector_store w DB_NAME COLLECTION_NAME ATLAS_VECTOR_SEARCH_INDEX_NAME ''cosine'')]"
      by (simp_all add: section_vector_stores_run)
    then show thesis using store(3,4) by (rule that(3))
  qed
qed

lemma early_not_store:
  assumes "\<forall>ev\<in>set evs. early_event ev"
  shows "AdminCommand c r \<notin> set evs" and "Getenv k v \<notin> set evs" and "MongoClientInit u a x \<notin> set evs"
  using assms by auto

lemma setup_event_not_pipeline:
  "setup_event ev \<Longrightarrow>
     \<not> is_loader_call ev \<and> \<not> is_splitter_call ev \<and> \<not> is_embedding_call ev \<and> \<not> is_store_call ev"
  by (cases ev) simp_all

lemma cell_root_events:
  assumes "cell_root w (init w) = (r, s1)"
  shows "\<forall>ev\<in>set (trace s1). setup_event ev"
proof -
  obtain evs where "trace (snd (cell_root w (init w))) = trace (init w) @ evs"
    and "\<forall>ev\<in>set evs. setup_event ev"
    using steps_cell_root by (rule stepsE)
  with assms show ?thesis by (simp add: init_def)
qed

lemma cell_secrets_events:
  assumes "cell_secrets w root_dir s1 = (r, s2)" and "\<forall>ev\<in>set (trace s1). setup_event ev"
  shows "\<forall>ev\<in>set (trace s2). setup_event ev"
proof -
  obtain evs where "trace (snd (cell_secrets w root_dir s1)) = trace s1 @ evs"
    and "\<forall>ev\<in>set evs. setup_event ev"
    using steps_cell_secrets by (rule stepsE)
  with assms show ?thesis by auto
qed

section \<open>The claims\<close>

subsection \<open>C9: the root is the parent directory, or the cell raises\<close>

text \<open>
  C9. The root-discovery loop reads only the listing of \<^verbatim>\<open>current_dir.parent\<close>, whatever
  ancestor \<open>p\<close> it iterates over. In closed form, for every working directory and every
  state: the cell logs the working directory; at the file-system root there is no
  ancestor and it raises the "No root directory" exception; otherwise, if the listing of
  the parent raises, that exception leaves the cell; if the listing holds \<^verbatim>\<open>.git\<close>
  (one listing) or \<^verbatim>\<open>.project-root\<close> (two listings), the first iteration assigns the
  parent to \<^verbatim>\<open>root_dir\<close>, prints it and ends the loop; otherwise every one of the
  \<open>length current_dir\<close> iterations lists the same parent twice and the \<^verbatim>\<open>else\<close> branch
  raises. No other directory is listed and no other directory is returned. The file
  system is taken to answer the same listing each time it is asked.
\<close>

theorem root_is_parent_or_failure:
  "cell_root w s =
     (let current_dir = ext_getcwd w;
          p = parent current_dir;
          s0 = s\<lparr>trace := trace s @ [Getcwd current_dir]\<rparr>
      in if current_dir = []
         then (Inl no_root, s0\<lparr>trace := trace s0 @ [Raised no_root]\<rparr>)
         else case ext_listdir w p of
           Inl e \<Rightarrow> (Inl e, s0\<lparr>trace := trace s0 @ [Listdir p (Some e)]\<rparr>)
         | Inr l \<Rightarrow>
             if ''.git'' \<in> set l
             then (Inr p, s0\<lparr>trace := trace s0 @ [Listdir p None, Print [OutStr (posix p)]]\<rparr>)
             else if ''.project-root'' \<in> set l
             then (Inr p, s0\<lparr>trace := trace s0 @ [Listdir p None, Listdir p None,
                                                    Print [OutStr (posix p)]]\<rparr>)
             else (Inl no_root,
                   s0\<lparr>trace := trace s0
                      @ concat (replicate (length current_dir) [Listdir p None, Listdir p None])
                      @ [Raised no_root]\<rparr>))"
  by (simp add: cell_root_run root_loop_run parents_Nil_iff length_parents Let_def
      split: sum.splits)

text \<open>
  In the nested world the loop runs five times, lists \<^verbatim>\<open>/home/user/RAG/notebooks\<close> ten times
  and raises, although \<^verbatim>\<open>/home/user/RAG\<close>, two levels up, holds \<^verbatim>\<open>.git\<close>.
\<close>

theorem root_is_parent_or_failure_witness:
  "ext_listdir world_nested [''home'', ''user'', ''RAG''] = Inr [''data'', ''.git'', ''.secrets'', ''notebooks'']
   \<and> fst (cell_root world_nested (init world_nested)) = Inl no_root
   \<and> trace (snd (cell_root world_nested (init world_nested))) =
       [Getcwd [''home'', ''user'', ''RAG'', ''notebooks'', ''drafts''],
        Listdir [''home'', ''user'', ''RAG'', ''notebooks''] None,
        Listdir [''home'', ''user'', ''RAG'', ''notebooks''] None,
        Listdir [''home'', ''user'', ''RAG'', ''notebooks''] None,
        Listdir [''home'', ''user'', ''RAG'', ''notebooks''] None,
        Listdir [''home'', ''user'', ''RAG'', ''notebooks''] None,
        Listdir [''home'', ''user'', ''RAG'', ''notebooks''] None,
        Listdir [''home'', ''user'', ''RAG'', ''notebooks''] None,
        Listdir [''home'', ''user'', ''RAG'', ''notebooks''] None,
        Listdir [''home'', ''user'', ''RAG'', ''notebooks''] None,
        Listdir [''home'', ''user'', ''RAG'', ''notebooks''] None,
        Raised no_root]"
  using root_is_parent_or_failure [of world_nested "init world_nested"]
  by (simp add: worlds world_nested_def init_def parent_def Let_def)

subsection \<open>C10: no secrets file, no pipeline\<close>

text \<open>
  As stated, C10 (without the secrets file the run aborts with an assertion failure)
  fails: when the file is absent and its directory may not be searched, the existence
  test \<^verbatim>\<open>f.exists()\<close> itself raises \<^verbatim>\<open>PermissionError\<close>, the \<^verbatim>\<open>assert\<close> is never
  evaluated, and that exception ends the run.
\<close>

theorem missing_secrets_permission_error_counterexample:
  "fst (cell_root world_secrets_unsearchable (init world_secrets_unsearchable)) = Inr [''home'', ''user'', ''RAG'']
   \<and> \<not> ext_exists world_secrets_unsearchable [''home'', ''user'', ''RAG'', ''.secrets'', ''.env'']
   \<and> fst (run world_secrets_unsearchable) = Inl (LibError ''PermissionError'')
   \<and> trace (snd (run world_secrets_unsearchable)) =
       [Getcwd [''home'', ''user'', ''RAG'', ''notebooks''],
        Listdir [''home'', ''user'', ''RAG''] None,
        Print [OutStr ''/home/user/RAG''],
        PathlibExists [''home'', ''user'', ''RAG'', ''.secrets'', ''.env'']
          (Inl (LibError ''PermissionError''))]"
  by (simp add: cells prims worlds world_secrets_unsearchable_def)

text \<open>
  C10, amended. When the root has been found and \<^verbatim>\<open><root_dir>/.secrets/.env\<close> does not
  exist, the run ends in the secrets cell, before any document is loaded, any embedding
  call is made or any vector-store connection is opened: with the \<^verbatim>\<open>AssertionError\<close>
  "File not found: ..." when the existence test answers \<^verbatim>\<open>False\<close>, and with the
  \<^verbatim>\<open>OSError\<close> of the existence test when that test raises. The trace is the root
  cell's trace, the existence test and, in the first case, the raise; nowhere in it is a
  call of \<^verbatim>\<open>load_dotenv\<close>, the PDF loader, the splitter, the embedder, the MongoDB client
  or the vector store.
\<close>

theorem missing_secrets_aborts_before_load:
  assumes root: "cell_root w (init w) = (Inr root_dir, s1)"
    and missing: "\<not> ext_exists w (truediv (truediv root_dir ''.secrets'') ''.env'')"
  shows "run w =
           (case ext_stat_error w (truediv (truediv root_dir ''.secrets'') ''.env'') of
              None \<Rightarrow>
                (Inl (AssertionError (Some (''File not found: ''
                        @ posix (truediv (truediv root_dir ''.secrets'') ''.env'')))),
                 s1\<lparr>trace := trace s1 @
                    [PathlibExists (truediv (truediv root_dir ''.secrets'') ''.env'') (Inr False),
                     Raised (AssertionError (Some (''File not found: ''
                        @ posix (truediv (truediv root_dir ''.secrets'') ''.env''))))]\<rparr>)
            | Some e \<Rightarrow>
                (Inl e,
                 s1\<lparr>trace := trace s1 @
                    [PathlibExists (truediv (truediv root_dir ''.secrets'') ''.env'') (Inl e)]\<rparr>))
       \<and> (\<forall>ev\<in>set (trace (snd (run w))).
             setup_event ev \<and> (\<forall>p r. ev \<noteq> LoadDotenv p r)
             \<and> \<not> is_loader_call ev \<and> \<not> is_splitter_call ev \<and> \<not> is_embedding_call ev \<and> \<not> is_store_call ev)"
proof -
  let ?f = "truediv (truediv root_dir ''.secrets'') ''.env''"
  let ?e = "AssertionError (Some (''File not found: '' @ posix ?f))"
  let ?r = "case ext_stat_error w ?f of
              None \<Rightarrow> (Inl ?e, s1\<lparr>trace := trace s1 @ [PathlibExists ?f (Inr False), Raised ?e]\<rparr>)
            | Some e \<Rightarrow> (Inl e, s1\<lparr>trace := trace s1 @ [PathlibExists ?f (Inl e)]\<rparr>)"
  have secrets: "cell_secrets w root_dir s1 = ?r"
    using missing by (simp add: cell_secrets_def Let_def prims split: option.splits)
  have "fst (cell_secrets w root_dir s1) = Inl (case ext_stat_error w ?f of None \<Rightarrow> ?e | Some e \<Rightarrow> e)"
    unfolding secrets by (simp split: option.splits)
  then have "bind (cell_secrets w root_dir) k s1 = ?r" for k :: "unit \<Rightarrow> unit nb"
    using bind_Inl [of "cell_secrets w root_dir" s1 _ k] secrets
    by (simp split: option.splits)
  then have run: "run w = ?r"
    using root by (simp add: run_def notebook_def bind_def)
  have root_events: "\<forall>ev\<in>set (trace s1). setup_event ev"
    using root by (rule cell_root_events)
  have no_dotenv: "\<forall>ev\<in>set (trace s1). \<forall>p r. ev \<noteq> LoadDotenv p r"
  proof -
    have "\<forall>ev\<in>set (trace (snd (cell_root w (init w)))). \<forall>p r. ev \<noteq> LoadDotenv p r"
      by (auto simp: cell_root_run root_loop_run init_def split: sum.splits if_splits)
    with root show ?thesis by simp
  qed
  have "\<forall>ev\<in>set (trace (snd (run w))). setup_event ev \<and> (\<forall>p r. ev \<noteq> LoadDotenv p r)"
    unfolding run using root_events no_dotenv by (auto split: option.splits)
  with run show ?thesis
    using setup_event_not_pipeline by blast
qed

theorem missing_secrets_aborts_before_load_witness:
  "fst (cell_root world_no_secrets (init world_no_secrets)) = Inr [''home'', ''user'', ''RAG'']
   \<and> \<not> ext_exists world_no_secrets (truediv (truediv [''home'', ''user'', ''RAG''] ''.secrets'') ''.env'')
   \<and> fst (run world_no_secrets) = Inl (AssertionError (Some ''File not found: /home/user/RAG/.secrets/.env''))
   \<and> trace (snd (run world_no_secrets)) =
       [Getcwd [''home'', ''user'', ''RAG'', ''notebooks''],
        Listdir [''home'', ''user'', ''RAG''] None,
        Print [OutStr ''/home/user/RAG''],
        PathlibExists [''home'', ''user'', ''RAG'', ''.secrets'', ''.env''] (Inr False),
        Raised (AssertionError (Some ''File not found: /home/user/RAG/.secrets/.env''))]"
proof -
  let ?w = world_no_secrets
  let ?root = "[''home'', ''user'', ''RAG'']"
  let ?s1 = "snd (cell_root ?w (init ?w))"
  have f1: "fst (cell_root ?w (init ?w)) = Inr ?root"
    by (simp add: cells prims worlds world_no_secrets_def)
  have t1: "trace ?s1 = [Getcwd [''home'', ''user'', ''RAG'', ''notebooks''],
        Listdir [''home'', ''user'', ''RAG''] None, Print [OutStr ''/home/user/RAG'']]"
    by (simp add: cells prims worlds world_no_secrets_def)
  have h1: "cell_root ?w (init ?w) = (Inr ?root, ?s1)"
    using f1 by (simp add: prod_eq_iff)
  have h2: "\<not> ext_exists ?w (truediv (truediv ?root ''.secrets'') ''.env'')"
    by (simp add: worlds world_no_secrets_def truediv_def)
  have h3: "ext_stat_error ?w (truediv (truediv ?root ''.secrets'') ''.env'') = None"
    by (simp add: worlds world_no_secrets_def)
  from missing_secrets_aborts_before_load [OF h1 h2] f1 h2 h3 t1 show ?thesis
    by (simp add: truediv_def posix_def)
qed

subsection \<open>C8: a missing PDF stops the run in the loader cell\<close>

text \<open>
  C8. When the root has been found, the secrets are loaded and the source file
  \<^verbatim>\<open><root_dir>/data/vmd_sample.pdf\<close> does not exist, the run fails in the loader cell: its
  \<^verbatim>\<open>assert os.path.exists(file_path)\<close> raises (an \<^verbatim>\<open>AssertionError\<close> without message,
  the notebook's form of the source-not-found error), the run ends there, and its trace
  holds no call of the loader, the splitter, the embedder, the MongoDB client or the
  vector store.
\<close>

theorem missing_pdf_fails_at_load:
  assumes root: "cell_root w (init w) = (Inr root_dir, s1)"
    and secrets: "cell_secrets w root_dir s1 = (Inr (), s2)"
    and missing: "\<not> ext_exists w (truediv (truediv root_dir ''data'') ''vmd_sample.pdf'')"
  shows "fst (cell_load w root_dir s2) = Inl (AssertionError None)
       \<and> run w =
           (Inl (AssertionError None),
            s2\<lparr>trace := trace s2 @
               [PathExists (truediv (truediv root_dir ''data'') ''vmd_sample.pdf'') False,
                Raised (AssertionError None)]\<rparr>)
       \<and> (\<forall>ev\<in>set (trace (snd (run w))).
             \<not> is_loader_call ev \<and> \<not> is_splitter_call ev \<and> \<not> is_embedding_call ev \<and> \<not> is_store_call ev)"
proof -
  have load: "cell_load w root_dir s2 =
           (Inl (AssertionError None),
            s2\<lparr>trace := trace s2 @
               [PathExists (truediv (truediv root_dir ''data'') ''vmd_sample.pdf'') False,
                Raised (AssertionError None)]\<rparr>)"
    using missing by (simp add: cell_load_def Let_def prims)
  have run: "run w =
           (Inl (AssertionError None),
            s2\<lparr>trace := trace s2 @
               [PathExists (truediv (truediv root_dir ''data'') ''vmd_sample.pdf'') False,
                Raised (AssertionError None)]\<rparr>)"
    using root secrets load
    by (simp add: run_def notebook_def section_documents_def bind_def)
  have "\<forall>ev\<in>set (trace s2). setup_event ev"
    using secrets cell_root_events [OF root] by (rule cell_secrets_events)
  then have "\<forall>ev\<in>set (trace (snd (run w))). setup_event ev"
    by (simp add: run)
  with load run show ?thesis
    using setup_event_not_pipeline by auto
qed

theorem missing_pdf_fails_at_load_witness:
  "fst (cell_root world_no_pdf (init world_no_pdf)) = Inr [''home'', ''user'', ''RAG'']
   \<and> fst (cell_secrets world_no_pdf [''home'', ''user'', ''RAG'']
            (snd (cell_root world_no_pdf (init world_no_pdf)))) = Inr ()
   \<and> \<not> ext_exists world_no_pdf (truediv (truediv [''home'', ''user'', ''RAG''] ''data'') ''vmd_sample.pdf'')
   \<and> fst (run world_no_pdf) = Inl (AssertionError None)
   \<and> trace (snd (run world_no_pdf)) =
       [Getcwd [''home'', ''user'', ''RAG'', ''notebooks''],
        Listdir [''home'', ''user'', ''RAG''] None,
        Print [OutStr ''/home/user/RAG''],
        PathlibExists [''home'', ''user'', ''RAG'', ''.secrets'', ''.env''] (Inr True),
        LoadDotenv [''home'', ''user'', ''RAG'', ''.secrets'', ''.env''] None,
        PathExists [''home'', ''user'', ''RAG'', ''data'', ''vmd_sample.pdf''] False,
        Raised (AssertionError None)]"
proof -
  let ?w = world_no_pdf
  let ?root = "[''home'', ''user'', ''RAG'']"
  let ?s1 = "snd (cell_root ?w (init ?w))"
  let ?s2 = "snd (cell_secrets ?w ?root ?s1)"
  have f1: "fst (cell_root ?w (init ?w)) = Inr ?root"
    by (simp add: cells prims worlds world_no_pdf_def)
  have t1: "trace ?s1 = [Getcwd [''home'', ''user'', ''RAG'', ''notebooks''],
        Listdir [''home'', ''user'', ''RAG''] None, Print [OutStr ''/home/user/RAG'']]"
    by (simp add: cells prims worlds world_no_pdf_def)
  have f2: "fst (cell_secrets ?w ?root ?s1) = Inr ()"
    by (simp add: cells prims worlds world_no_pdf_def)
  have t2: "trace ?s2 = trace ?s1 @ [PathlibExists [''home'', ''user'', ''RAG'', ''.secrets'', ''.env''] (Inr True),
        LoadDotenv [''home'', ''user'', ''RAG'', ''.secrets'', ''.env''] None]"
    by (simp add: cells prims worlds world_no_pdf_def)
  have h1: "cell_root ?w (init ?w) = (Inr ?root, ?s1)"
    using f1 by (simp add: prod_eq_iff)
  have h2: "cell_secrets ?w ?root ?s1 = (Inr (), ?s2)"
    using f2 by (simp add: prod_eq_iff)
  have h3: "\<not> ext_exists ?w (truediv (truediv ?root ''data'') ''vmd_sample.pdf'')"
    by (simp add: worlds world_no_pdf_def truediv_def)
  from missing_pdf_fails_at_load [OF h1 h2 h3] f1 f2 h3 t1 t2 show ?thesis
    by (simp add: truediv_def)
qed

subsection \<open>C6: one exception is caught, all others end the run\<close>

text \<open>
  As stated, C6 (no error is caught locally) fails: with a MongoDB deployment that does
  not answer the ping, the exception is caught by the cell's \<^verbatim>\<open>except Exception\<close>, its
  message is printed, and the run goes on to build the vector store and ends normally.
\<close>

theorem ping_failure_caught_counterexample:
  "fst (run world_ping_down) = Inr ()
   \<and> trace (snd (run world_ping_down)) =
       [Getcwd [''home'', ''user'', ''RAG'', ''notebooks''],
        Listdir [''home'', ''user'', ''RAG''] None,
        Print [OutStr ''/home/user/RAG''],
        PathlibExists [''home'', ''user'', ''RAG'', ''.secrets'', ''.env''] (Inr True),
        LoadDotenv [''home'', ''user'', ''RAG'', ''.secrets'', ''.env''] None,
        PathExists [''home'', ''user'', ''RAG'', ''data'', ''vmd_sample.pdf''] True,
        LoaderInit [''home'', ''user'', ''RAG'', ''data'', ''vmd_sample.pdf''] None,
        LoaderLoad [''home'', ''user'', ''RAG'', ''data'', ''vmd_sample.pdf''] None,
        Print [OutStr ''len(docs)='', OutNat 38],
        Print [OutStr ''CONTENT''],
        Print [OutStr (''Visual Molecular Dynamics'' @ [CHR 0x0A])],
        Print [OutMeta [(''page'', MInt 0)]],
        SplitterInit \<lparr>chunk_size = 1000, chunk_overlap = 200, add_start_index = True\<rparr> None,
        SplitDocuments \<lparr>chunk_size = 1000, chunk_overlap = 200, add_start_index = True\<rparr> None,
        EmbeddingsInit ''llama3.2'' None,
        EmbedQuery ''llama3.2'' ''Visual Molecular Dynamics'' None,
        EmbedQuery ''llama3.2'' ''Visual Molecular Dynamics'' None,
        Print [OutStr ''Both embedding have same length:'', OutBool True],
        Print [OutStr ''Generated vectors of length '', OutNat 3, OutStr [CHR 0x0A]],
        Print [OutVec [1, 2, 3]],
        Getenv ''MONGODB_URI'' (Some ''mongodb://localhost:27017''),
        MongoClientInit (Some ''mongodb://localhost:27017'') ''1'' None,
        AdminCommand ''ping'' (Some (LibError ''ServerSelectionTimeoutError'')),
        Print [OutErr (LibError ''ServerSelectionTimeoutError'')],
        VectorStoreInit ''langchain_demo'' ''emp-policy'' ''vector_index'' ''cosine'' None]"
  by (simp add: cells prims worlds world_ping_down_def text_splitter_def embeddings_model_def DB_NAME_def
      COLLECTION_NAME_def ATLAS_VECTOR_SEARCH_INDEX_NAME_def)

text \<open>
  C6, amended. In every run: an event that records an exception and is not the ping is
  the last event of the trace (nothing runs after it); a run that ends with exception
  \<open>e\<close> has that very \<open>e\<close> recorded by its last event, which is not the ping; a run that
  ends normally records no exception except possibly the ping's; and a failed ping is
  followed by exactly the print of its exception and the construction of the vector
  store, which are the last three events of the trace.
\<close>

theorem only_ping_failure_caught:
  assumes "run w = (r, s)"
  shows "(\<forall>ev\<in>set (butlast (trace s)). raised ev \<noteq> None \<longrightarrow> is_ping ev)
       \<and> (\<forall>e. r = Inl e \<longrightarrow> trace s \<noteq> [] \<and> raised (last (trace s)) = Some e \<and> \<not> is_ping (last (trace s)))
       \<and> (r = Inr () \<longrightarrow> (\<forall>ev\<in>set (trace s). raised ev \<noteq> None \<longrightarrow> is_ping ev))
       \<and> (\<forall>e. AdminCommand ''ping'' (Some e) \<in> set (trace s) \<longrightarrow>
            (\<exists>tr r3. trace s = tr @ [AdminCommand ''ping'' (Some e), Print [OutErr e],
               VectorStoreInit DB_NAME COLLECTION_NAME ATLAS_VECTOR_SEARCH_INDEX_NAME ''cosine'' r3]))"
proof -
  from assms have r: "r = fst (run w)" and s: "s = snd (run w)" by simp_all
  show ?thesis
  proof (cases rule: run_cases [of w])
    case (early e evs)
    then show ?thesis
      unfolding r s using early_not_store(1) [OF early(3)]
      by (simp add: failing_def quiet_def)
  next
    case (client e evs)
    then show ?thesis
      unfolding r s using early_not_store(1) [OF client(3)]
      by (simp add: quiet_def butlast_append)
  next
    case (store evs r2 r3)
    have ping: "\<exists>tr r3'. evs @
             [Getenv ''MONGODB_URI'' (environ (snd (run w)) ''MONGODB_URI''),
              MongoClientInit (environ (snd (run w)) ''MONGODB_URI'') ''1'' None,
              AdminCommand ''ping'' (Some e), Print [OutErr e],
              VectorStoreInit DB_NAME COLLECTION_NAME ATLAS_VECTOR_SEARCH_INDEX_NAME ''cosine'' r3]
          = tr @ [AdminCommand ''ping'' (Some e), Print [OutErr e],
               VectorStoreInit DB_NAME COLLECTION_NAME ATLAS_VECTOR_SEARCH_INDEX_NAME ''cosine'' r3']" for e
      by (intro exI [of _ "evs @ [Getenv ''MONGODB_URI'' (environ (snd (run w)) ''MONGODB_URI''),
              MongoClientInit (environ (snd (run w)) ''MONGODB_URI'') ''1'' None]"] exI [of _ r3]) simp
    show ?thesis
      unfolding r s store(1,2) using early_not_store(1) [OF store(3)] store(4) ping
      by (cases r3) (auto simp: quiet_def butlast_append ping_message_def)
  qed
qed

theorem only_ping_failure_caught_witness:
  "run world_ping_down = (Inr (), snd (run world_ping_down))
   \<and> (\<exists>tr r3. trace (snd (run world_ping_down)) =
         tr @ [AdminCommand ''ping'' (Some (LibError ''ServerSelectionTimeoutError'')),
               Print [OutErr (LibError ''ServerSelectionTimeoutError'')],
               VectorStoreInit DB_NAME COLLECTION_NAME ATLAS_VECTOR_SEARCH_INDEX_NAME ''cosine'' r3])"
proof -
  have f: "fst (run world_ping_down) = Inr ()"
    by (simp add: cells prims worlds world_ping_down_def)
  then have h: "run world_ping_down = (Inr (), snd (run world_ping_down))"
    by (simp add: prod_eq_iff)
  have m: "AdminCommand ''ping'' (Some (LibError ''ServerSelectionTimeoutError''))
             \<in> set (trace (snd (run world_ping_down)))"
    by (simp add: cells prims worlds world_ping_down_def)
  from only_ping_failure_caught [OF h] m h show ?thesis
    by blast
qed

subsection \<open>C7: the connection string is read under the key \<^verbatim>\<open>MONGODB_URI\<close>\<close>

text \<open>
  As stated, C7 (the key is \<^verbatim>\<open>CONNECTION_URI\<close>) fails: with a secrets file that defines
  \<^verbatim>\<open>CONNECTION_URI\<close> and nothing else, the notebook asks the environment for
  \<^verbatim>\<open>MONGODB_URI\<close>, gets \<^verbatim>\<open>None\<close>, and builds the client from \<^verbatim>\<open>None\<close>.
\<close>

theorem connection_uri_key_counterexample:
  "environ (snd (run world_connection_uri)) ''CONNECTION_URI'' = Some ''mongodb://db.example:27017''
   \<and> environ (snd (run world_connection_uri)) ''MONGODB_URI'' = None
   \<and> Getenv ''MONGODB_URI'' None \<in> set (trace (snd (run world_connection_uri)))
   \<and> MongoClientInit None ''1'' None \<in> set (trace (snd (run world_connection_uri)))"
  by (simp add: cells prims worlds world_connection_uri_def)

text \<open>
  C7, amended. In every run, the only key the notebook reads from the environment is
  \<^verbatim>\<open>MONGODB_URI\<close>, the value read is the one the environment holds after
  \<^verbatim>\<open>load_dotenv\<close>, and every MongoDB client is built from that value.
\<close>

theorem connection_string_from_mongodb_uri:
  assumes "run w = (r, s)"
  shows "\<forall>ev\<in>set (trace s).
           (\<forall>k v. ev = Getenv k v \<longrightarrow> k = ''MONGODB_URI'' \<and> v = environ s ''MONGODB_URI'')
         \<and> (\<forall>u a x. ev = MongoClientInit u a x \<longrightarrow> u = environ s ''MONGODB_URI'')"
proof -
  from assms have s: "s = snd (run w)" by simp
  show ?thesis
  proof (cases rule: run_cases [of w])
    case (early e evs)
    then show ?thesis
      unfolding s using early_not_store(2,3) [OF early(3)] by auto
  next
    case (client e evs)
    then show ?thesis
      unfolding s using early_not_store(2,3) [OF client(3)] by auto
  next
    case (store evs r2 r3)
    then show ?thesis
      unfolding s using early_not_store(2,3) [OF store(3)] by auto
  qed
qed

theorem connection_string_from_mongodb_uri_witness:
  "run world_ok = (Inr (), snd (run world_ok))
   \<and> MongoClientInit (Some ''mongodb://localhost:27017'') ''1'' None \<in> set (trace (snd (run world_ok)))
   \<and> environ (snd (run world_ok)) ''MONGODB_URI'' = Some ''mongodb://localhost:27017''"
proof -
  have f: "fst (run world_ok) = Inr ()"
    by (simp add: cells prims worlds)
  then have h: "run world_ok = (Inr (), snd (run world_ok))"
    by (simp add: prod_eq_iff)
  have m: "MongoClientInit (Some ''mongodb://localhost:27017'') ''1'' None
             \<in> set (trace (snd (run world_ok)))"
    by (simp add: cells prims worlds)
  from connection_string_from_mongodb_uri [OF h] m h show ?thesis
    by fastforce
qed

end
